theory Spec2Isabelle
  imports Complex_Main
begin

section \<open>LocalDocs database (gpt4all-chat/database.cpp)\<close>

text \<open>
  A shallow embedding of the indexing and retrieval code of \<^verbatim>\<open>database.cpp\<close>.

  \<^item> A \<^verbatim>\<open>QString\<close> is a \<^typ>\<open>string\<close>: text restricted to code points below 256. The
    content of a file is the sequence of its bytes, each read as one character: this is
    what the code does for a file of ASCII text; for a file in another encoding a
    character of the stream is not one byte of the file.
  \<^item> An \<^verbatim>\<open>int\<close> that holds the id of a row is an \<^typ>\<open>int\<close>: the ids stay below the 31 bits
    to which \<^verbatim>\<open>toInt()\<close> narrows them.
  \<^item> The SQLite tables are lists of rows; every SQL statement the code prepares and
    executes may fail, which an oracle of the environment decides.
  \<^item> The members of the \<^verbatim>\<open>Database\<close> object are the fields of a record that every
    function takes and returns.
  \<^item> Calls on \<^verbatim>\<open>m_db\<close> that open or close a transaction and calls on the vector index
    \<^verbatim>\<open>m_embeddings\<close> are logged, in the order they happen, in the field \<open>trace\<close>.
  \<^item> \<^verbatim>\<open>Q_ASSERT\<close> is compiled out (a release build).
  \<^item> The progress items shown by the user interface (\<^verbatim>\<open>m_collectionMap\<close>) are written
    by the code below and never read back for a decision; they are left out.
\<close>

subsection \<open>Text\<close>

text \<open>\<^verbatim>\<open>QChar::isSpace\<close> on code points below 256.\<close>

definition isSpace :: "char \<Rightarrow> bool" where
  "isSpace c = (c \<in> set [CHR 0x09, CHR 0x0A, CHR 0x0B, CHR 0x0C, CHR 0x0D, CHR '' '', CHR 0x85, CHR 0xA0])"

text \<open>The class \<^verbatim>\<open>\s\<close> of \<^verbatim>\<open>QRegularExpression\<close> (no Unicode properties).\<close>

definition re_space :: "char \<Rightarrow> bool" where
  "re_space c = (c \<in> set [CHR 0x09, CHR 0x0A, CHR 0x0B, CHR 0x0C, CHR 0x0D, CHR '' ''])"

text \<open>The class \<^verbatim>\<open>[.,;:!?'"()\-]\<close> of \<^verbatim>\<open>generateGrams\<close>.\<close>

definition punctuation :: "char \<Rightarrow> bool" where
  "punctuation c = (c \<in> set [CHR ''.'', CHR '','', CHR '';'', CHR '':'', CHR ''!'', CHR ''?'',
     CHR 0x27, CHR 0x22, CHR ''('', CHR '')'', CHR ''-''])"

text \<open>\<^verbatim>\<open>QStringList::join\<close>.\<close>

fun join :: "string \<Rightarrow> string list \<Rightarrow> string" where
  "join sep [] = []"
| "join sep [x] = x"
| "join sep (x # y # zs) = x @ sep @ join sep (y # zs)"

text \<open>
  \<^verbatim>\<open>QString::split(QRegularExpression("\\s+"), behavior)\<close>: the fields between maximal runs
  of white space. With \<open>KeepEmptyParts\<close>, the default, white space at either end of the
  text yields an empty field there, and the empty text is one empty field.
\<close>

datatype SplitBehavior = KeepEmptyParts | SkipEmptyParts

function split_fields :: "string \<Rightarrow> string list" where
  "split_fields s =
     (let w = takeWhile (\<lambda>c. \<not> re_space c) s;
          r = dropWhile (\<lambda>c. \<not> re_space c) s
      in if r = [] then [w] else w # split_fields (dropWhile re_space r))"
  by pat_completeness auto

lemma dropWhile_space_shorter:
  "dropWhile (\<lambda>c. \<not> re_space c) s \<noteq> [] \<Longrightarrow>
   length (dropWhile re_space (dropWhile (\<lambda>c. \<not> re_space c) s)) < length s"
proof -
  assume ne: "dropWhile (\<lambda>c. \<not> re_space c) s \<noteq> []"
  let ?r = "dropWhile (\<lambda>c. \<not> re_space c) s"
  from ne obtain c cs where r: "?r = c # cs" by (cases ?r) auto
  have "\<not> \<not> re_space (hd ?r)" using ne by (rule hd_dropWhile)
  then have "re_space c" using r by simp
  then have "length (dropWhile re_space ?r) \<le> length cs"
    using r by (simp add: length_dropWhile_le)
  moreover have "length ?r \<le> length s" by (rule length_dropWhile_le)
  ultimately show ?thesis using r by simp
qed

termination split_fields
  by (relation "measure length") (auto simp: dropWhile_space_shorter)

declare split_fields.simps [simp del]

definition split_spaces :: "SplitBehavior \<Rightarrow> string \<Rightarrow> string list" where
  "split_spaces behavior s =
     (case behavior of
        KeepEmptyParts \<Rightarrow> split_fields s
      | SkipEmptyParts \<Rightarrow> filter (\<lambda>w. w \<noteq> []) (split_fields s))"

text \<open>\<^verbatim>\<open>QString::number\<close> of an \<^verbatim>\<open>int\<close>, in base ten.\<close>

fun digits :: "nat \<Rightarrow> string" where
  "digits n = (if n < 10 then [''0123456789'' ! n]
               else digits (n div 10) @ [''0123456789'' ! (n mod 10)])"

declare digits.simps [simp del]

definition number :: "int \<Rightarrow> string" where
  "number i = (if i < 0 then CHR ''-'' # digits (nat (- i)) else digits (nat i))"

subsection \<open>N-gram queries\<close>

definition generateGrams :: "string \<Rightarrow> int \<Rightarrow> string list" where
  "generateGrams input N =
     (let cleanedInput = filter (\<lambda>c. \<not> punctuation c) input;
          words = split_spaces SkipEmptyParts cleanedInput;
          N = min (int (length words)) N
      in map (\<lambda>i. ''NEAR('' @
                    join '' '' (map (\<lambda>j. [CHR 0x22] @ words ! (i + j) @ [CHR 0x22]) [0..<nat N])
                    @ '', '' @ number N @ '')'')
           [0..<nat (int (length words) - (N - 1))])"

subsection \<open>The relational store\<close>

text \<open>The rows of the tables \<^verbatim>\<open>folders\<close>, \<^verbatim>\<open>documents\<close>, \<^verbatim>\<open>chunks\<close>, \<^verbatim>\<open>chunks_fts\<close> and
  \<^verbatim>\<open>collections\<close>, with the columns of the \<^verbatim>\<open>create table\<close> statements.\<close>

record folder_row =
  f_id :: int
  f_folder_path :: string

record document_row =
  d_id :: int
  d_folder_id :: int
  d_document_time :: int
  d_document_path :: string

record chunk_row =
  c_document_id :: int
  c_chunk_id :: int
  c_chunk_text :: string
  c_file :: string
  c_title :: string
  c_author :: string
  c_subject :: string
  c_keywords :: string
  c_page :: int
  c_line_from :: int
  c_line_to :: int
  c_words :: int
  c_tokens :: int
  c_has_embedding :: int

record fts_row =
  fts_document_id :: int
  fts_chunk_id :: int
  fts_chunk_text :: string
  fts_file :: string
  fts_title :: string
  fts_author :: string
  fts_subject :: string
  fts_keywords :: string
  fts_page :: int
  fts_line_from :: int
  fts_line_to :: int

record collection_row =
  col_collection_name :: string
  col_folder_id :: int
  col_last_update_time :: "int option"
  col_embedding_model :: string
  col_force_indexing :: bool

text \<open>The database file: the five tables and the \<^verbatim>\<open>autoincrement\<close> counter of \<^verbatim>\<open>chunks\<close>
  (SQLite's \<^verbatim>\<open>sqlite_sequence\<close>).\<close>

record database =
  folders :: "folder_row list"
  documents :: "document_row list"
  chunks :: "chunk_row list"
  chunks_fts :: "fts_row list"
  collections :: "collection_row list"
  chunks_sequence :: int

text \<open>The statements the code prepares and executes, each with the values it binds.\<close>

datatype statement =
    INSERT_CHUNK_SQL int string
  | LAST_INSERT_ROWID
  | INSERT_CHUNK_FTS_SQL int int string
  | DELETE_CHUNKS_SQL int
  | DELETE_CHUNKS_FTS_SQL int
  | SELECT_CHUNKS_BY_DOCUMENT_SQL int
  | SELECT_NGRAM_SQL "string list" int string
  | UPDATE_CHUNK_HAS_EMBEDDING int
  | DELETE_COLLECTION_SQL string int
  | SELECT_COLLECTIONS_FROM_FOLDER_SQL int
  | SELECT_COLLECTIONS_SQL_V2
  | DELETE_FOLDERS_SQL int
  | SELECT_FOLDERS_FROM_PATH_SQL string
  | INSERT_DOCUMENTS_SQL int int string
  | UPDATE_DOCUMENT_TIME_SQL int int
  | DELETE_DOCUMENTS_SQL int
  | SELECT_DOCUMENT_SQL string
  | SELECT_DOCUMENTS_SQL int
  | SELECT_ALL_DOCUMENTS_SQL

text \<open>A row of the result of \<^verbatim>\<open>SELECT_NGRAM_SQL\<close>.\<close>

record ngram_row =
  n_chunk_id :: int
  n_document_time :: int
  n_chunk_text :: string
  n_file :: string
  n_title :: string
  n_author :: string
  n_page :: int
  n_line_from :: int
  n_line_to :: int

subsection \<open>The environment\<close>

text \<open>A file as \<^verbatim>\<open>QFileInfo\<close>, \<^verbatim>\<open>QFile\<close> and \<^verbatim>\<open>QPdfDocument\<close> see it.\<close>

record pdf_document =
  pdf_pages :: "string list"
  pdf_title :: string
  pdf_author :: string
  pdf_subject :: string
  pdf_keywords :: string

record file_entry =
  fe_readable :: bool
  fe_mtime :: int
  fe_size :: nat
  fe_content :: string
  fe_open_ok :: bool
  fe_seek_ok :: "nat \<Rightarrow> bool"
  fe_pdf :: "pdf_document option"

datatype event =
    Transaction
  | Commit
  | Rollback
  | EmbeddingsAdd int bool
  | EmbeddingsRemove int
  | EmbeddingsSave

text \<open>
  What the code cannot decide by itself:
  \<^item> \<open>sql_fails\<close>: whether preparing or executing a statement fails on a database;
  \<^item> \<open>file_system\<close>: the file at a canonical path, if one exists;
  \<^item> \<open>add_ok\<close>: the result of \<^verbatim>\<open>Embeddings::add\<close> for a vector and a key, after the calls
    logged so far;
  \<^item> \<open>fts_match\<close>: the rows of \<^verbatim>\<open>SELECT_NGRAM_SQL\<close> for the collection names, the limit and
    the match text, in the order of \<^verbatim>\<open>bm25\<close>;
  \<^item> \<open>date_format\<close>: \<^verbatim>\<open>QDateTime::toString("yyyy, MMMM dd")\<close> of a time in milliseconds.
\<close>

record env =
  sql_fails :: "statement \<Rightarrow> database \<Rightarrow> bool"
  file_system :: "string \<Rightarrow> file_entry option"
  add_ok :: "event list \<Rightarrow> real list \<Rightarrow> int \<Rightarrow> bool"
  fts_match :: "string list \<Rightarrow> int \<Rightarrow> string \<Rightarrow> database \<Rightarrow> ngram_row list"
  date_format :: "int \<Rightarrow> string"

subsection \<open>Statements on chunks\<close>

definition addChunk ::
  "env \<Rightarrow> int \<Rightarrow> string \<Rightarrow> string \<Rightarrow> string \<Rightarrow> string \<Rightarrow> string \<Rightarrow> string \<Rightarrow> int \<Rightarrow> int \<Rightarrow> int \<Rightarrow> int
     \<Rightarrow> int \<Rightarrow> database \<Rightarrow> bool \<times> int \<times> database" where
  "addChunk E document_id chunk_text file title author subject keywords page line_from line_to
       words chunk_id db =
     (if sql_fails E (INSERT_CHUNK_SQL document_id chunk_text) db then (False, chunk_id, db)
      else
        let rowid = max (chunks_sequence db) (fold max (map c_chunk_id (chunks db)) 0) + 1;
            db1 = db\<lparr>chunks := chunks db @
                    [\<lparr>c_document_id = document_id, c_chunk_id = rowid, c_chunk_text = chunk_text,
                      c_file = file, c_title = title, c_author = author, c_subject = subject,
                      c_keywords = keywords, c_page = page, c_line_from = line_from,
                      c_line_to = line_to, c_words = words, c_tokens = 0, c_has_embedding = 0\<rparr>],
                    chunks_sequence := rowid\<rparr>
        in if sql_fails E LAST_INSERT_ROWID db1 then (False, chunk_id, db1)
           else if sql_fails E (INSERT_CHUNK_FTS_SQL document_id rowid chunk_text) db1
             then (False, rowid, db1)
           else (True, rowid,
                 db1\<lparr>chunks_fts := chunks_fts db1 @
                    [\<lparr>fts_document_id = document_id, fts_chunk_id = rowid,
                      fts_chunk_text = chunk_text, fts_file = file, fts_title = title,
                      fts_author = author, fts_subject = subject, fts_keywords = keywords,
                      fts_page = page, fts_line_from = line_from, fts_line_to = line_to\<rparr>]\<rparr>))"

definition removeChunksByDocumentId :: "env \<Rightarrow> int \<Rightarrow> database \<Rightarrow> bool \<times> database" where
  "removeChunksByDocumentId E document_id db =
     (if sql_fails E (DELETE_CHUNKS_SQL document_id) db then (False, db)
      else
        let db1 = db\<lparr>chunks := filter (\<lambda>c. c_document_id c \<noteq> document_id) (chunks db)\<rparr>
        in if sql_fails E (DELETE_CHUNKS_FTS_SQL document_id) db1 then (False, db1)
           else (True, db1\<lparr>chunks_fts :=
                   filter (\<lambda>c. fts_document_id c \<noteq> document_id) (chunks_fts db1)\<rparr>))"


subsection \<open>Sparse retrieval\<close>

text \<open>
  \<^verbatim>\<open>selectChunk(q, collection_names, chunk_text, retrievalSize)\<close>: the loop
  \<^verbatim>\<open>for (int N = N_WORDS; N > 2; N--)\<close>. The result is the return value, the rows the query
  \<^verbatim>\<open>q\<close> is left with, and the match texts executed, in order.
\<close>

fun selectChunk_loop ::
  "env \<Rightarrow> string list \<Rightarrow> string \<Rightarrow> int \<Rightarrow> database \<Rightarrow> nat \<Rightarrow> string list
     \<Rightarrow> bool \<times> ngram_row list \<times> string list" where
  "selectChunk_loop E collection_names chunk_text retrievalSize db 0 tried = (True, [], tried)"
| "selectChunk_loop E collection_names chunk_text retrievalSize db (Suc n) tried =
     (if Suc n > 2 then
        let orText = join '' OR '' (generateGrams chunk_text (int (Suc n)))
        in if sql_fails E (SELECT_NGRAM_SQL collection_names retrievalSize orText) db
           then (False, [], tried)
           else
             let rows = fts_match E collection_names retrievalSize orText db
             in if rows \<noteq> [] then (True, rows, tried @ [orText])
                else selectChunk_loop E collection_names chunk_text retrievalSize db n
                       (tried @ [orText])
      else (True, [], tried))"

definition selectChunk ::
  "env \<Rightarrow> string list \<Rightarrow> string \<Rightarrow> int \<Rightarrow> database \<Rightarrow> bool \<times> ngram_row list \<times> string list" where
  "selectChunk E collection_names chunk_text retrievalSize db =
     (let N_WORDS = length (split_spaces KeepEmptyParts chunk_text)
      in selectChunk_loop E collection_names chunk_text retrievalSize db N_WORDS [])"

record ResultInfo =
  r_file :: string
  r_title :: string
  r_author :: string
  r_date :: string
  r_text :: string
  r_page :: int
  r_from :: int
  r_to :: int

text \<open>\<^verbatim>\<open>Database::retrieveFromDB\<close> when \<^verbatim>\<open>m_embeddings->isLoaded()\<close> is false: the results
  appended to \<^verbatim>\<open>*results\<close>.\<close>

definition retrieveFromDB :: "env \<Rightarrow> string list \<Rightarrow> string \<Rightarrow> int \<Rightarrow> database \<Rightarrow> ResultInfo list" where
  "retrieveFromDB E collection_names text retrievalSize db =
     (case selectChunk E collection_names text retrievalSize db of
        (ok, rows, tried) \<Rightarrow>
          if \<not> ok then []
          else map (\<lambda>row. \<lparr>r_file = n_file row, r_title = n_title row, r_author = n_author row,
                      r_date = date_format E (n_document_time row), r_text = n_chunk_text row,
                      r_page = n_page row, r_from = n_line_from row, r_to = n_line_to row\<rparr>) rows)"

subsection \<open>Statements on documents, folders and collections\<close>

text \<open>The result columns go through pointers in the source: a statement that fails, or that
  selects no row, leaves the caller's values as they were.\<close>

definition selectDocument :: "env \<Rightarrow> string \<Rightarrow> int \<Rightarrow> int \<Rightarrow> database \<Rightarrow> bool \<times> int \<times> int" where
  "selectDocument E document_path id' document_time db =
     (if sql_fails E (SELECT_DOCUMENT_SQL document_path) db then (False, id', document_time)
      else case find (\<lambda>d. d_document_path d = document_path) (documents db) of
             Some d \<Rightarrow> (True, d_id d, d_document_time d)
           | None \<Rightarrow> (True, id', document_time))"

text \<open>\<^verbatim>\<open>documents.id\<close> is an \<^verbatim>\<open>integer primary key\<close>: a new row gets the largest id plus
  one; \<^verbatim>\<open>document_path\<close> is \<^verbatim>\<open>unique\<close>.\<close>

definition addDocument ::
  "env \<Rightarrow> int \<Rightarrow> int \<Rightarrow> string \<Rightarrow> int \<Rightarrow> database \<Rightarrow> bool \<times> int \<times> database" where
  "addDocument E folder_id document_time document_path document_id db =
     (if sql_fails E (INSERT_DOCUMENTS_SQL folder_id document_time document_path) db
         \<or> document_path \<in> set (map d_document_path (documents db))
      then (False, document_id, db)
      else
        let rowid = fold max (map d_id (documents db)) 0 + 1
        in (True, rowid,
            db\<lparr>documents := documents db @
                 [\<lparr>d_id = rowid, d_folder_id = folder_id, d_document_time = document_time,
                   d_document_path = document_path\<rparr>]\<rparr>))"

definition removeDocument :: "env \<Rightarrow> int \<Rightarrow> database \<Rightarrow> bool \<times> database" where
  "removeDocument E document_id db =
     (if sql_fails E (DELETE_DOCUMENTS_SQL document_id) db then (False, db)
      else (True, db\<lparr>documents := filter (\<lambda>d. d_id d \<noteq> document_id) (documents db)\<rparr>))"

definition updateDocument :: "env \<Rightarrow> int \<Rightarrow> int \<Rightarrow> database \<Rightarrow> bool \<times> database" where
  "updateDocument E id' document_time db =
     (if sql_fails E (UPDATE_DOCUMENT_TIME_SQL document_time id') db then (False, db)
      else (True, db\<lparr>documents :=
              map (\<lambda>d. if d_id d = id' then d\<lparr>d_document_time := document_time\<rparr> else d)
                (documents db)\<rparr>))"

definition selectDocuments :: "env \<Rightarrow> int \<Rightarrow> int list \<Rightarrow> database \<Rightarrow> bool \<times> int list" where
  "selectDocuments E folder_id documentIds db =
     (if sql_fails E (SELECT_DOCUMENTS_SQL folder_id) db then (False, documentIds)
      else (True, documentIds @ map d_id (filter (\<lambda>d. d_folder_id d = folder_id) (documents db))))"

definition selectFolder :: "env \<Rightarrow> string \<Rightarrow> int \<Rightarrow> database \<Rightarrow> bool \<times> int" where
  "selectFolder E folder_path id' db =
     (if sql_fails E (SELECT_FOLDERS_FROM_PATH_SQL folder_path) db then (False, id')
      else case find (\<lambda>f. f_folder_path f = folder_path) (folders db) of
             Some f \<Rightarrow> (True, f_id f)
           | None \<Rightarrow> (True, id'))"

definition removeFolderFromDB :: "env \<Rightarrow> int \<Rightarrow> database \<Rightarrow> bool \<times> database" where
  "removeFolderFromDB E folder_id db =
     (if sql_fails E (DELETE_FOLDERS_SQL folder_id) db then (False, db)
      else (True, db\<lparr>folders := filter (\<lambda>f. f_id f \<noteq> folder_id) (folders db)\<rparr>))"

definition removeCollection :: "env \<Rightarrow> string \<Rightarrow> int \<Rightarrow> database \<Rightarrow> bool \<times> database" where
  "removeCollection E collection_name folder_id db =
     (if sql_fails E (DELETE_COLLECTION_SQL collection_name folder_id) db then (False, db)
      else (True, db\<lparr>collections :=
              filter (\<lambda>c. \<not> (col_collection_name c = collection_name \<and> col_folder_id c = folder_id))
                (collections db)\<rparr>))"

definition selectCollectionsFromFolder ::
  "env \<Rightarrow> int \<Rightarrow> string list \<Rightarrow> database \<Rightarrow> bool \<times> string list" where
  "selectCollectionsFromFolder E folder_id collection_names db =
     (if sql_fails E (SELECT_COLLECTIONS_FROM_FOLDER_SQL folder_id) db then (False, collection_names)
      else (True, collection_names @
              map col_collection_name (filter (\<lambda>c. col_folder_id c = folder_id) (collections db))))"

subsection \<open>The Database object\<close>

text \<open>Modelled from the spec: \<^verbatim>\<open>database.h\<close> is not among the sources; section 4.3 of the
  specification lists the fields of \<^verbatim>\<open>DocumentInfo\<close>, \<open>is_pdf\<close> among them. The field
  \<open>doc\<close>, a \<^verbatim>\<open>QFileInfo\<close>, is the canonical path of the file.\<close>

record DocumentInfo =
  folder :: int
  doc :: string
  currentPage :: int
  currentPosition :: nat
  currentlyProcessing :: bool
  is_pdf :: bool

definition isPdf :: "DocumentInfo \<Rightarrow> bool" where
  "isPdf info = is_pdf info"

record EmbeddingChunk =
  ec_folder_id :: int
  ec_chunk_id :: int
  ec_chunk :: string


text \<open>
  \<^item> \<open>m_db\<close>: the contents of the database; \<open>m_db_transaction\<close>: inside a transaction, the
    contents when it began, which a rollback restores.
  \<^item> \<open>m_docsToScan\<close>: a \<^verbatim>\<open>QMap<int, QQueue<DocumentInfo>>\<close>, its entries in the order of
    their keys.
  \<^item> \<open>m_embLLM\<close>: the batches handed to \<^verbatim>\<open>EmbeddingLLM::generateAsyncEmbeddings\<close>.
  \<^item> \<open>m_watcher\<close>: the paths the \<^verbatim>\<open>QFileSystemWatcher\<close> watches.
\<close>

record Database =
  m_db :: database
  m_db_transaction :: "database option"
  m_chunkSize :: int
  m_docsToScan :: "(int \<times> DocumentInfo list) list"
  m_chunkList :: "EmbeddingChunk list"
  m_embLLM :: "EmbeddingChunk list list"
  m_watcher :: "string list"
  trace :: "event list"

datatype error = DivisionByZero | DequeueFromEmptyQueue

definition s_batchSize :: int where
  "s_batchSize = 100"

definition transaction :: "Database \<Rightarrow> Database" where
  "transaction s =
     s\<lparr>m_db_transaction := (case m_db_transaction s of None \<Rightarrow> Some (m_db s) | Some b \<Rightarrow> Some b),
       trace := trace s @ [Transaction]\<rparr>"

definition commit :: "Database \<Rightarrow> Database" where
  "commit s = s\<lparr>m_db_transaction := None, trace := trace s @ [Commit]\<rparr>"

definition rollback :: "Database \<Rightarrow> Database" where
  "rollback s =
     s\<lparr>m_db := (case m_db_transaction s of None \<Rightarrow> m_db s | Some b \<Rightarrow> b),
       m_db_transaction := None, trace := trace s @ [Rollback]\<rparr>"

definition embeddings_remove :: "int \<Rightarrow> Database \<Rightarrow> Database" where
  "embeddings_remove chunk s = s\<lparr>trace := trace s @ [EmbeddingsRemove chunk]\<rparr>"

definition embeddings_save :: "Database \<Rightarrow> Database" where
  "embeddings_save s = s\<lparr>trace := trace s @ [EmbeddingsSave]\<rparr>"

definition sendChunkList :: "Database \<Rightarrow> Database" where
  "sendChunkList s = s\<lparr>m_embLLM := m_embLLM s @ [m_chunkList s], m_chunkList := []\<rparr>"

definition appendChunk :: "EmbeddingChunk \<Rightarrow> Database \<Rightarrow> Database" where
  "appendChunk chunk s =
     (let s1 = s\<lparr>m_chunkList := m_chunkList s @ [chunk]\<rparr>
      in if int (length (m_chunkList s1)) \<ge> s_batchSize then sendChunkList s1 else s1)"

definition scheduleNext :: "int \<Rightarrow> nat \<Rightarrow> Database \<Rightarrow> Database" where
  "scheduleNext folder_id countForFolder s = (if countForFolder = 0 then sendChunkList s else s)"

definition getChunksByDocumentId :: "env \<Rightarrow> int \<Rightarrow> int list \<Rightarrow> Database \<Rightarrow> bool \<times> int list" where
  "getChunksByDocumentId E document_id chunkIds s =
     (if sql_fails E (SELECT_CHUNKS_BY_DOCUMENT_SQL document_id) (m_db s) then (False, chunkIds)
      else (True, chunkIds @
              map c_chunk_id (filter (\<lambda>c. c_document_id c = document_id) (chunks (m_db s)))))"

subsection \<open>Chunking a text stream\<close>

text \<open>A \<^verbatim>\<open>QTextStream\<close>: the position and the text not yet read. \<^verbatim>\<open>stream >> word\<close> skips
  white space, then reads up to the next white space, which it leaves in the stream.\<close>

record text_stream =
  ts_pos :: nat
  ts_rest :: string

definition atEnd :: "text_stream \<Rightarrow> bool" where
  "atEnd stream = (ts_rest stream = [])"

definition readWord :: "text_stream \<Rightarrow> string \<times> text_stream" where
  "readWord stream =
     (let skipped = dropWhile isSpace (ts_rest stream);
          word = takeWhile (\<lambda>c. \<not> isSpace c) skipped;
          rest = dropWhile (\<lambda>c. \<not> isSpace c) skipped
      in (word, \<lparr>ts_pos = ts_pos stream + (length (ts_rest stream) - length rest),
                 ts_rest = rest\<rparr>))"

lemma readWord_shorter:
  "\<not> atEnd stream \<Longrightarrow> length (ts_rest (snd (readWord stream))) < length (ts_rest stream)"
proof -
  assume "\<not> atEnd stream"
  then obtain c cs where r: "ts_rest stream = c # cs"
    by (cases "ts_rest stream") (auto simp: atEnd_def)
  show ?thesis
  proof (cases "isSpace c")
    case True
    have "length (dropWhile (\<lambda>c. \<not> isSpace c) (dropWhile isSpace cs)) \<le> length (dropWhile isSpace cs)"
      by (rule length_dropWhile_le)
    also have "\<dots> \<le> length cs" by (rule length_dropWhile_le)
    finally show ?thesis using True r by (simp add: readWord_def Let_def)
  next
    case False
    have "length (dropWhile (\<lambda>c. \<not> isSpace c) cs) \<le> length cs" by (rule length_dropWhile_le)
    then show ?thesis using False r by (simp add: readWord_def Let_def)
  qed
qed

text \<open>The \<^verbatim>\<open>while (!stream.atEnd())\<close> loop of \<^verbatim>\<open>Database::chunkStream\<close>; its result is the
  stream, the number of chunks and the object when the loop is left.\<close>

function chunkStream_loop ::
  "env \<Rightarrow> int \<Rightarrow> int \<Rightarrow> string \<Rightarrow> string \<Rightarrow> string \<Rightarrow> string \<Rightarrow> string \<Rightarrow> int \<Rightarrow> int
     \<Rightarrow> text_stream \<Rightarrow> int \<Rightarrow> string list \<Rightarrow> int \<Rightarrow> Database
     \<Rightarrow> text_stream \<times> int \<times> Database" where
  "chunkStream_loop E folder_id document_id file title author subject keywords page maxChunks
       stream charCount words chunks' s =
     (if atEnd stream then (stream, chunks', s)
      else
        let word = fst (readWord stream);
            stream1 = snd (readWord stream);
            charCount1 = charCount + int (length word);
            words1 = (if word \<noteq> [] then words @ [word] else words)
        in if charCount1 + int (length words1) - 1 \<ge> m_chunkSize s \<or> atEnd stream1 then
             let chunk = join '' '' words1;
                 added = addChunk E document_id chunk file title author subject keywords page
                           (- 1) (- 1) (int (length words1)) 0 (m_db s);
                 chunk_id = fst (snd added);
                 s1 = appendChunk
                        \<lparr>ec_folder_id = folder_id, ec_chunk_id = chunk_id, ec_chunk = chunk\<rparr>
                        (s\<lparr>m_db := snd (snd added)\<rparr>);
                 chunks1 = chunks' + 1
             in if maxChunks > 0 \<and> chunks1 = maxChunks then (stream1, chunks1, s1)
                else chunkStream_loop E folder_id document_id file title author subject keywords
                       page maxChunks stream1 0 [] chunks1 s1
           else chunkStream_loop E folder_id document_id file title author subject keywords
                  page maxChunks stream1 charCount1 words1 chunks' s)"
  by pat_completeness auto

termination chunkStream_loop
  by (relation "measure (\<lambda>(E, folder_id, document_id, file, title, author, subject, keywords,
        page, maxChunks, stream, charCount, words, chunks', s). length (ts_rest stream))")
     (auto simp: readWord_shorter)

declare chunkStream_loop.simps [simp del]

text \<open>\<^verbatim>\<open>Database::chunkStream\<close>: the position of the stream and the object afterwards.\<close>

definition chunkStream ::
  "env \<Rightarrow> text_stream \<Rightarrow> int \<Rightarrow> int \<Rightarrow> string \<Rightarrow> string \<Rightarrow> string \<Rightarrow> string \<Rightarrow> string \<Rightarrow> int \<Rightarrow> int
     \<Rightarrow> Database \<Rightarrow> nat \<times> Database" where
  "chunkStream E stream folder_id document_id file title author subject keywords page maxChunks s =
     (case chunkStream_loop E folder_id document_id file title author subject keywords page
             maxChunks stream 0 [] 0 s of
        (stream', chunks', s') \<Rightarrow> (ts_pos stream', s'))"

text \<open>Modelled from the spec: the default value of \<^verbatim>\<open>maxChunks\<close> is declared in
  \<^verbatim>\<open>database.h\<close>, which is not among the sources; by section 4.4 of the specification
  only a positive \<^verbatim>\<open>maxChunks\<close> is a cap, and a page of a PDF is chunked without one.\<close>

definition default_maxChunks :: int where
  "default_maxChunks = - 1"

subsection \<open>The queue of documents to scan\<close>

text \<open>\<^verbatim>\<open>QMap\<close> operations on the list of entries: \<^verbatim>\<open>contains\<close>/\<^verbatim>\<open>value\<close>, \<^verbatim>\<open>remove\<close> and
  \<^verbatim>\<open>operator[]\<close> with an assignment, which keeps the entries in the order of their keys.\<close>

definition qmap_remove :: "int \<Rightarrow> (int \<times> 'a) list \<Rightarrow> (int \<times> 'a) list" where
  "qmap_remove k m = filter (\<lambda>e. fst e \<noteq> k) m"

fun qmap_insert :: "int \<Rightarrow> 'a \<Rightarrow> (int \<times> 'a) list \<Rightarrow> (int \<times> 'a) list" where
  "qmap_insert k v [] = [(k, v)]"
| "qmap_insert k v ((k', v') # m) =
     (if k < k' then (k, v) # (k', v') # m
      else if k = k' then (k, v) # m
      else (k', v') # qmap_insert k v m)"

definition countOfDocuments :: "int \<Rightarrow> Database \<Rightarrow> nat" where
  "countOfDocuments folder_id s =
     (case map_of (m_docsToScan s) folder_id of None \<Rightarrow> 0 | Some queue \<Rightarrow> length queue)"

definition dequeueDocument :: "Database \<Rightarrow> error + (DocumentInfo \<times> Database)" where
  "dequeueDocument s =
     (case m_docsToScan s of
        [] \<Rightarrow> Inl DequeueFromEmptyQueue
      | (firstKey, queue) # rest \<Rightarrow>
          (case queue of
             [] \<Rightarrow> Inl DequeueFromEmptyQueue
           | result # queue' \<Rightarrow>
               Inr (result,
                    s\<lparr>m_docsToScan :=
                        (if queue' = [] then qmap_remove firstKey (m_docsToScan s)
                         else (firstKey, queue') # rest)\<rparr>)))"

definition removeFolderFromDocumentQueue :: "int \<Rightarrow> Database \<Rightarrow> Database" where
  "removeFolderFromDocumentQueue folder_id s =
     (case map_of (m_docsToScan s) folder_id of
        None \<Rightarrow> s
      | Some queue \<Rightarrow> s\<lparr>m_docsToScan := qmap_remove folder_id (m_docsToScan s)\<rparr>)"

definition enqueueDocumentInternal :: "DocumentInfo \<Rightarrow> bool \<Rightarrow> Database \<Rightarrow> Database" where
  "enqueueDocumentInternal info prepend s =
     (let key = folder info;
          queue = (case map_of (m_docsToScan s) key of None \<Rightarrow> [] | Some queue \<Rightarrow> queue)
      in s\<lparr>m_docsToScan :=
             qmap_insert key (if prepend then info # queue else queue @ [info]) (m_docsToScan s)\<rparr>)"

subsection \<open>Scanning one document\<close>

text \<open>\<^verbatim>\<open>QFileInfo::fileName\<close>: the path after its last separator.\<close>

definition fileName :: "string \<Rightarrow> string" where
  "fileName path = rev (takeWhile (\<lambda>c. c \<noteq> CHR ''/'') (rev path))"

text \<open>\<^verbatim>\<open>QPdfDocument::getAllText(page).text()\<close>: the text of a page; an index that is not a
  page of the document gives the empty selection.\<close>

definition getAllText :: "pdf_document \<Rightarrow> int \<Rightarrow> string" where
  "getAllText pdf pageIndex =
     (if 0 \<le> pageIndex \<and> pageIndex < int (length (pdf_pages pdf))
      then pdf_pages pdf ! nat pageIndex else [])"

text \<open>\<^verbatim>\<open>std::floor(bytes / doc.pageCount())\<close>: a division of unsigned integers, which a
  divisor of zero leaves undefined (the process is killed).\<close>

definition bytesPerPage :: "nat \<Rightarrow> int \<Rightarrow> error + nat" where
  "bytesPerPage bytes pageCount =
     (if pageCount = 0 then Inl DivisionByZero else Inr (bytes div nat pageCount))"

text \<open>The branch \<^verbatim>\<open>if (info.isPdf())\<close> of \<^verbatim>\<open>Database::scanQueue\<close>, to the end of the
  function.\<close>

definition scanQueue_pdf ::
  "env \<Rightarrow> DocumentInfo \<Rightarrow> nat \<Rightarrow> int \<Rightarrow> file_entry \<Rightarrow> int list \<Rightarrow> Database
     \<Rightarrow> error + (bool \<times> int list \<times> Database)" where
  "scanQueue_pdf E info countForFolder document_id fe chunksToRemove s =
     (case fe_pdf fe of
        None \<Rightarrow> Inr (False, chunksToRemove, scheduleNext (folder info) countForFolder s)
      | Some pdf \<Rightarrow>
          let bytes = fe_size fe;
              pageCount = int (length (pdf_pages pdf))
          in (case bytesPerPage bytes pageCount of
               Inl e \<Rightarrow> Inl e
             | Inr perPage \<Rightarrow>
                 let pageIndex = currentPage info;
                     text = getAllText pdf pageIndex;
                     s1 = snd (chunkStream E \<lparr>ts_pos = 0, ts_rest = text\<rparr> (folder info)
                                 document_id (fileName (doc info)) (pdf_title pdf) (pdf_author pdf)
                                 (pdf_subject pdf) (pdf_keywords pdf) (pageIndex + 1)
                                 default_maxChunks s)
                 in if currentPage info < pageCount then
                      Inr (True, chunksToRemove,
                           scheduleNext (folder info) (countForFolder + 1)
                             (enqueueDocumentInternal
                                (info\<lparr>currentPage := currentPage info + 1,
                                      currentlyProcessing := True\<rparr>) True s1))
                    else Inr (True, chunksToRemove, scheduleNext (folder info) countForFolder s1)))"

text \<open>The \<^verbatim>\<open>else\<close> branch, for a plain text file, to the end of the function.\<close>

definition scanQueue_text ::
  "env \<Rightarrow> DocumentInfo \<Rightarrow> nat \<Rightarrow> int \<Rightarrow> file_entry \<Rightarrow> int list \<Rightarrow> Database
     \<Rightarrow> error + (bool \<times> int list \<times> Database)" where
  "scanQueue_text E info countForFolder document_id fe chunksToRemove s =
     (if \<not> fe_open_ok fe then
        Inr (False, chunksToRemove, scheduleNext (folder info) countForFolder s)
      else
        let bytes = fe_size fe;
            byteIndex = currentPosition info
        in if \<not> fe_seek_ok fe byteIndex then
             Inr (False, chunksToRemove, scheduleNext (folder info) countForFolder s)
           else
             let chunked = chunkStream E
                             \<lparr>ts_pos = byteIndex, ts_rest = drop byteIndex (fe_content fe)\<rparr>
                             (folder info) document_id (fileName (doc info)) [] [] [] []
                             (- 1) 100 s;
                 pos = fst chunked;
                 s1 = snd chunked
             in if currentPosition info < bytes then
                  Inr (True, chunksToRemove,
                       scheduleNext (folder info) (countForFolder + 1)
                         (enqueueDocumentInternal
                            (info\<lparr>currentPosition := pos, currentlyProcessing := True\<rparr>) True s1))
                else Inr (True, chunksToRemove, scheduleNext (folder info) countForFolder s1))"

text \<open>The middle of \<^verbatim>\<open>Database::scanQueue\<close>: the row of the document is updated, or added,
  unless the document is being processed; then the file is read.\<close>

definition scanQueue_document ::
  "env \<Rightarrow> DocumentInfo \<Rightarrow> nat \<Rightarrow> int \<Rightarrow> file_entry \<Rightarrow> int list \<Rightarrow> Database
     \<Rightarrow> error + (bool \<times> int list \<times> Database)" where
  "scanQueue_document E info countForFolder existing_id fe chunksToRemove s =
     (let document_time = fe_mtime fe;
          document_path = doc info;
          read = (\<lambda>document_id s'.
                    if isPdf info
                    then scanQueue_pdf E info countForFolder document_id fe chunksToRemove s'
                    else scanQueue_text E info countForFolder document_id fe chunksToRemove s')
      in if \<not> currentlyProcessing info then
           if existing_id \<noteq> - 1 then
             (case updateDocument E existing_id document_time (m_db s) of
                (ok, db1) \<Rightarrow>
                  if \<not> ok then
                    Inr (False, chunksToRemove,
                         scheduleNext (folder info) countForFolder (s\<lparr>m_db := db1\<rparr>))
                  else read existing_id (s\<lparr>m_db := db1\<rparr>))
           else
             (case addDocument E (folder info) document_time document_path existing_id (m_db s) of
                (ok, document_id, db1) \<Rightarrow>
                  if \<not> ok then
                    Inr (False, chunksToRemove,
                         scheduleNext (folder info) countForFolder (s\<lparr>m_db := db1\<rparr>))
                  else read document_id (s\<lparr>m_db := db1\<rparr>))
         else read existing_id s)"

text \<open>\<^verbatim>\<open>Database::scanQueue\<close>: the return value, the list \<^verbatim>\<open>chunksToRemove\<close> and the object
  afterwards. A path the file system does not have is a file that does not exist.\<close>

definition scanQueue ::
  "env \<Rightarrow> int list \<Rightarrow> Database \<Rightarrow> error + (bool \<times> int list \<times> Database)" where
  "scanQueue E chunksToRemove s =
     (case dequeueDocument s of
        Inl e \<Rightarrow> Inl e
      | Inr (info, s0) \<Rightarrow>
          let countForFolder = countOfDocuments (folder info) s0;
              folder_id = folder info
          in (case file_system E (doc info) of
               None \<Rightarrow> Inr (True, chunksToRemove, scheduleNext folder_id countForFolder s0)
             | Some fe \<Rightarrow>
                 if \<not> fe_readable fe then
                   Inr (True, chunksToRemove, scheduleNext folder_id countForFolder s0)
                 else
                   (case selectDocument E (doc info) (- 1) (- 1) (m_db s0) of
                      (ok, existing_id, existing_time) \<Rightarrow>
                        if \<not> ok then
                          Inr (False, chunksToRemove, scheduleNext folder_id countForFolder s0)
                        else if existing_id \<noteq> - 1 \<and> \<not> currentlyProcessing info then
                          if fe_mtime fe = existing_time then
                            Inr (True, chunksToRemove, scheduleNext folder_id countForFolder s0)
                          else
                            (case getChunksByDocumentId E existing_id chunksToRemove s0 of
                               (ok1, chunksToRemove1) \<Rightarrow>
                                 if \<not> ok1 then
                                   Inr (False, chunksToRemove1,
                                        scheduleNext folder_id countForFolder s0)
                                 else
                                   (case removeChunksByDocumentId E existing_id (m_db s0) of
                                      (ok2, db2) \<Rightarrow>
                                        if \<not> ok2 then
                                          Inr (False, chunksToRemove1,
                                               scheduleNext folder_id countForFolder
                                                 (s0\<lparr>m_db := db2\<rparr>))
                                        else scanQueue_document E info countForFolder existing_id
                                               fe chunksToRemove1 (s0\<lparr>m_db := db2\<rparr>)))
                        else scanQueue_document E info countForFolder existing_id fe
                               chunksToRemove s0)))"

subsection \<open>The scan tick\<close>

text \<open>The loop of \<^verbatim>\<open>Database::scanQueueBatch\<close>. The clock decides how often the test
  \<^verbatim>\<open>timer.elapsed() < 100\<close> holds: the first argument is the number of documents the
  100 ms admit.\<close>

fun scanQueueBatch_loop ::
  "env \<Rightarrow> nat \<Rightarrow> int list \<Rightarrow> Database \<Rightarrow> error + (bool \<times> int list \<times> Database)" where
  "scanQueueBatch_loop E 0 chunksToRemove s = Inr (True, chunksToRemove, s)"
| "scanQueueBatch_loop E (Suc n) chunksToRemove s =
     (if m_docsToScan s = [] then Inr (True, chunksToRemove, s)
      else case scanQueue E chunksToRemove s of
             Inl e \<Rightarrow> Inl e
           | Inr (ok, chunksToRemove1, s1) \<Rightarrow>
               if \<not> ok then Inr (False, chunksToRemove1, s1)
               else scanQueueBatch_loop E n chunksToRemove1 s1)"

text \<open>The end of every batch operation: the chunks are removed from the vector index, the
  transaction is committed, and the index is saved if a chunk was removed.\<close>

definition apply_removals :: "int list \<Rightarrow> Database \<Rightarrow> Database" where
  "apply_removals chunksToRemove s =
     (let s1 = fold embeddings_remove chunksToRemove s;
          s2 = commit s1
      in if chunksToRemove \<noteq> [] then embeddings_save s2 else s2)"

definition scanQueueBatch :: "env \<Rightarrow> nat \<Rightarrow> Database \<Rightarrow> error + Database" where
  "scanQueueBatch E n s =
     (case scanQueueBatch_loop E n [] (transaction s) of
        Inl e \<Rightarrow> Inl e
      | Inr (ok, chunksToRemove, s1) \<Rightarrow>
          if \<not> ok then Inr (rollback s1) else Inr (apply_removals chunksToRemove s1))"

subsection \<open>Embedding results\<close>



subsection \<open>Removing a folder\<close>

definition removeFolderFromWatch :: "string \<Rightarrow> Database \<Rightarrow> Database" where
  "removeFolderFromWatch path s = s\<lparr>m_watcher := removeAll path (m_watcher s)\<rparr>"

text \<open>The loop \<^verbatim>\<open>for (int document_id : documentIds)\<close> of \<^verbatim>\<open>removeFolderInternal\<close>, which
  \<^verbatim>\<open>changeChunkSize\<close> runs over the documents of its query: false when a statement failed and
  the caller rolls back.\<close>

fun remove_documents :: "env \<Rightarrow> int list \<Rightarrow> int list \<Rightarrow> Database \<Rightarrow> bool \<times> int list \<times> Database" where
  "remove_documents E [] chunksToRemove s = (True, chunksToRemove, s)"
| "remove_documents E (document_id # documentIds) chunksToRemove s =
     (case getChunksByDocumentId E document_id chunksToRemove s of
        (ok, chunksToRemove1) \<Rightarrow>
          if \<not> ok then (False, chunksToRemove1, s)
          else
            (case removeChunksByDocumentId E document_id (m_db s) of
               (ok1, db1) \<Rightarrow>
                 if \<not> ok1 then (False, chunksToRemove1, s\<lparr>m_db := db1\<rparr>)
                 else
                   (case removeDocument E document_id db1 of
                      (ok2, db2) \<Rightarrow>
                        if \<not> ok2 then (False, chunksToRemove1, s\<lparr>m_db := db2\<rparr>)
                        else remove_documents E documentIds chunksToRemove1 (s\<lparr>m_db := db2\<rparr>))))"

definition removeFolderInternal :: "env \<Rightarrow> string \<Rightarrow> int \<Rightarrow> string \<Rightarrow> Database \<Rightarrow> Database" where
  "removeFolderInternal E collection folder_id path s =
     (case selectCollectionsFromFolder E folder_id [] (m_db s) of
        (ok, collections') \<Rightarrow>
          if \<not> ok then s
          else
            let s1 = transaction s
            in case removeCollection E collection folder_id (m_db s1) of
                 (ok1, db1) \<Rightarrow>
                   if \<not> ok1 then rollback (s1\<lparr>m_db := db1\<rparr>)
                   else if length collections' > 1 then commit (s1\<lparr>m_db := db1\<rparr>)
                   else
                     let s2 = removeFolderFromDocumentQueue folder_id (s1\<lparr>m_db := db1\<rparr>)
                     in case selectDocuments E folder_id [] (m_db s2) of
                          (ok2, documentIds) \<Rightarrow>
                            if \<not> ok2 then rollback s2
                            else
                              (case remove_documents E documentIds [] s2 of
                                 (ok3, chunksToRemove, s3) \<Rightarrow>
                                   if \<not> ok3 then rollback s3
                                   else
                                     (case removeFolderFromDB E folder_id (m_db s3) of
                                        (ok4, db4) \<Rightarrow>
                                          if \<not> ok4 then rollback (s3\<lparr>m_db := db4\<rparr>)
                                          else removeFolderFromWatch path
                                                 (apply_removals chunksToRemove
                                                    (s3\<lparr>m_db := db4\<rparr>)))))"

definition removeFolder :: "env \<Rightarrow> string \<Rightarrow> string \<Rightarrow> Database \<Rightarrow> Database" where
  "removeFolder E collection path s =
     (case selectFolder E path (- 1) (m_db s) of
        (ok, folder_id) \<Rightarrow>
          if \<not> ok then s
          else if folder_id = - 1 then s\<lparr>m_watcher := removeAll path (m_watcher s)\<rparr>
          else removeFolderInternal E collection folder_id path s)"

subsection \<open>Cleaning the database and changing the chunk size\<close>










section \<open>Example inputs\<close>

text \<open>A readable text file and a readable PDF, both last modified at time 1000.\<close>

definition text_file :: "string \<Rightarrow> file_entry" where
  "text_file content =
     \<lparr>fe_readable = True, fe_mtime = 1000, fe_size = length content, fe_content = content,
      fe_open_ok = True, fe_seek_ok = (\<lambda>pos. True), fe_pdf = None\<rparr>"

definition pdf_file :: "string list \<Rightarrow> file_entry" where
  "pdf_file pages =
     \<lparr>fe_readable = True, fe_mtime = 1000, fe_size = 300, fe_content = [],
      fe_open_ok = True, fe_seek_ok = (\<lambda>pos. True),
      fe_pdf = Some \<lparr>pdf_pages = pages, pdf_title = ''T'', pdf_author = ''A'',
                      pdf_subject = ''S'', pdf_keywords = ''K''\<rparr>\<rparr>"

definition one_file :: "string \<Rightarrow> file_entry \<Rightarrow> string \<Rightarrow> file_entry option" where
  "one_file path fe = (\<lambda>p. if p = path then Some fe else None)"

text \<open>An environment in which no statement fails, every vector is added and nothing
  matches a full-text query.\<close>

definition reliable_env :: "(string \<Rightarrow> file_entry option) \<Rightarrow> env" where
  "reliable_env fs =
     \<lparr>sql_fails = (\<lambda>st db. False), file_system = fs, add_ok = (\<lambda>tr v k. True),
      fts_match = (\<lambda>names k q db. []), date_format = (\<lambda>t. [])\<rparr>"

text \<open>The same, but every insertion into \<^verbatim>\<open>chunks\<close> fails.\<close>

definition failing_chunk_insert_env :: "(string \<Rightarrow> file_entry option) \<Rightarrow> env" where
  "failing_chunk_insert_env fs =
     (reliable_env fs)
       \<lparr>sql_fails := (\<lambda>st db. case st of INSERT_CHUNK_SQL document_id chunk_text \<Rightarrow> True
                                | _ \<Rightarrow> False)\<rparr>"

text \<open>The same as \<open>reliable_env\<close> without files, but every deletion from \<^verbatim>\<open>folders\<close>
  fails.\<close>

definition failing_folder_delete_env :: env where
  "failing_folder_delete_env =
     (reliable_env (\<lambda>p. None))
       \<lparr>sql_fails := (\<lambda>st db. case st of DELETE_FOLDERS_SQL folder_id \<Rightarrow> True | _ \<Rightarrow> False)\<rparr>"

text \<open>A database with the folder \<^verbatim>\<open>/a\<close> in the collection \<^verbatim>\<open>C\<close> and nothing scanned yet, and
  the same database after the file \<^verbatim>\<open>/a/a.txt\<close> was scanned.\<close>

definition folder_a :: database where
  "folder_a =
     \<lparr>folders = [\<lparr>f_id = 1, f_folder_path = ''/a''\<rparr>], documents = [], chunks = [],
      chunks_fts = [],
      collections = [\<lparr>col_collection_name = ''C'', col_folder_id = 1,
                      col_last_update_time = None, col_embedding_model = ''m'',
                      col_force_indexing = False\<rparr>],
      chunks_sequence = 0\<rparr>"

definition indexed_a :: database where
  "indexed_a =
     folder_a\<lparr>documents := [\<lparr>d_id = 1, d_folder_id = 1, d_document_time = 1000,
                               d_document_path = ''/a/a.txt''\<rparr>],
              chunks := [\<lparr>c_document_id = 1, c_chunk_id = 1, c_chunk_text = ''alpha'',
                          c_file = ''a.txt'', c_title = [], c_author = [], c_subject = [],
                          c_keywords = [], c_page = - 1, c_line_from = - 1, c_line_to = - 1,
                          c_words = 1, c_tokens = 0, c_has_embedding = 0\<rparr>],
              chunks_fts := [\<lparr>fts_document_id = 1, fts_chunk_id = 1, fts_chunk_text = ''alpha'',
                          fts_file = ''a.txt'', fts_title = [], fts_author = [], fts_subject = [],
                          fts_keywords = [], fts_page = - 1, fts_line_from = - 1,
                          fts_line_to = - 1\<rparr>],
              chunks_sequence := 1\<rparr>"

text \<open>An object with chunk size 10, outside a transaction, with a queue for folder 1.\<close>

definition queued :: "database \<Rightarrow> DocumentInfo list \<Rightarrow> Database" where
  "queued db queue =
     \<lparr>m_db = db, m_db_transaction = None, m_chunkSize = 10, m_docsToScan = [(1, queue)],
      m_chunkList = [], m_embLLM = [], m_watcher = [''/a''], trace = []\<rparr>"

definition new_document :: "string \<Rightarrow> bool \<Rightarrow> DocumentInfo" where
  "new_document path pdf =
     \<lparr>folder = 1, doc = path, currentPage = 0, currentPosition = 0,
      currentlyProcessing = False, is_pdf = pdf\<rparr>"

section \<open>Notions used in the properties\<close>

text \<open>No statement fails.\<close>

definition reliable :: "env \<Rightarrow> bool" where
  "reliable E = (\<forall>st db. \<not> sql_fails E st db)"






text \<open>The words of a query as \<^verbatim>\<open>generateGrams\<close> sees them: punctuation removed, split at
  white space, empty parts skipped.\<close>

definition stripped_words :: "string \<Rightarrow> string list" where
  "stripped_words text = split_spaces SkipEmptyParts (filter (\<lambda>c. \<not> punctuation c) text)"

text \<open>The phrase \<^verbatim>\<open>NEAR("w1" ... "wn", n)\<close> of a run of words.\<close>

definition near_phrase :: "string list \<Rightarrow> string" where
  "near_phrase ws =
     ''NEAR('' @ join '' '' (map (\<lambda>w. [CHR 0x22] @ w @ [CHR 0x22]) ws) @ '', ''
       @ number (int (length ws)) @ '')''"

text \<open>The ids of the documents of a folder, the database without the rows of some documents
  and of their chunks, and the ids of the chunks of some documents.\<close>

definition folder_documents :: "database \<Rightarrow> int \<Rightarrow> int list" where
  "folder_documents db folder_id =
     map d_id (filter (\<lambda>d. d_folder_id d = folder_id) (documents db))"

definition without_documents :: "int list \<Rightarrow> database \<Rightarrow> database" where
  "without_documents ids db =
     db\<lparr>chunks := filter (\<lambda>c. c_document_id c \<notin> set ids) (chunks db),
        chunks_fts := filter (\<lambda>c. fts_document_id c \<notin> set ids) (chunks_fts db),
        documents := filter (\<lambda>d. d_id d \<notin> set ids) (documents db)\<rparr>"

definition chunks_of_documents :: "int list \<Rightarrow> database \<Rightarrow> int list" where
  "chunks_of_documents ids db =
     map c_chunk_id (filter (\<lambda>c. c_document_id c \<in> set ids) (chunks db))"

text \<open>The database without the association of a collection with a folder, and the number of
  associations a folder has.\<close>

definition without_association :: "string \<Rightarrow> int \<Rightarrow> database \<Rightarrow> database" where
  "without_association collection folder_id db =
     db\<lparr>collections :=
          filter (\<lambda>c. \<not> (col_collection_name c = collection \<and> col_folder_id c = folder_id))
            (collections db)\<rparr>"

definition associations :: "database \<Rightarrow> int \<Rightarrow> nat" where
  "associations db folder_id =
     length (filter (\<lambda>c. col_folder_id c = folder_id) (collections db))"

text \<open>The calls of a batch that commits: the transaction is opened, the chunks are removed
  from the vector index, the transaction is committed, and the index is saved if a chunk was
  removed.\<close>

definition committed_batch :: "int list \<Rightarrow> event list" where
  "committed_batch cs =
     Transaction # map EmbeddingsRemove cs @ Commit # (if cs = [] then [] else [EmbeddingsSave])"

text \<open>The database \<open>indexed_a\<close> with the folder in the two collections \<^verbatim>\<open>C\<close> and \<^verbatim>\<open>D\<close>.\<close>

definition shared_a :: database where
  "shared_a =
     indexed_a\<lparr>collections :=
        [\<lparr>col_collection_name = ''C'', col_folder_id = 1, col_last_update_time = None,
          col_embedding_model = ''m'', col_force_indexing = False\<rparr>,
         \<lparr>col_collection_name = ''D'', col_folder_id = 1, col_last_update_time = None,
          col_embedding_model = ''m'', col_force_indexing = False\<rparr>]\<rparr>"






section \<open>Properties\<close>

subsection \<open>What a call leaves alone\<close>

lemma dequeueDocument_frame:
  "dequeueDocument s = Inr (info, s0) \<Longrightarrow>
   m_db s0 = m_db s \<and> trace s0 = trace s \<and> m_db_transaction s0 = m_db_transaction s"
  by (auto simp: dequeueDocument_def split: list.splits prod.splits if_splits)

lemma scheduleNext_frame:
  "m_db (scheduleNext folder_id n s) = m_db s"
  "trace (scheduleNext folder_id n s) = trace s"
  "m_docsToScan (scheduleNext folder_id n s) = m_docsToScan s"
  "m_db_transaction (scheduleNext folder_id n s) = m_db_transaction s"
  by (simp_all add: scheduleNext_def sendChunkList_def)

subsection \<open>The scan of one document\<close>

text \<open>
  Claim C8. A document that has a row in \<^verbatim>\<open>documents\<close>, is not being processed and whose
  file has the modification time stored in that row is skipped: \<^verbatim>\<open>scanQueue\<close> returns
  with the database as it was, adds nothing to \<^verbatim>\<open>chunksToRemove\<close> and does not put the
  document back on the queue. It returns true unless the statement that looks the document
  up fails. (The row's id is not -1, the value the code reads as "no row"; SQLite assigns
  positive ids.)
\<close>

theorem scanQueue_skips_unchanged_document:
  assumes deq: "dequeueDocument s = Inr (info, s0)"
    and fl: "file_system E (doc info) = Some fe" "fe_readable fe"
    and idle: "\<not> currentlyProcessing info"
    and row: "find (\<lambda>d. d_document_path d = doc info) (documents (m_db s)) = Some d"
             "d_id d \<noteq> - 1"
    and same: "d_document_time d = fe_mtime fe"
    and s': "s' = scheduleNext (folder info) (countOfDocuments (folder info) s0) s0"
  shows "scanQueue E chunksToRemove s =
           Inr (\<not> sql_fails E (SELECT_DOCUMENT_SQL (doc info)) (m_db s), chunksToRemove, s')
         \<and> m_db s' = m_db s \<and> m_docsToScan s' = m_docsToScan s0 \<and> trace s' = trace s"
proof -
  have db: "m_db s0 = m_db s" "trace s0 = trace s"
    using dequeueDocument_frame[OF deq] by simp_all
  have "scanQueue E chunksToRemove s =
           Inr (\<not> sql_fails E (SELECT_DOCUMENT_SQL (doc info)) (m_db s), chunksToRemove, s')"
    using deq fl idle row same db
    by (simp add: scanQueue_def selectDocument_def s' Let_def)
  then show ?thesis by (simp add: s' scheduleNext_frame db)
qed

theorem scanQueue_skips_unchanged_document_witness:
  "map_sum id (\<lambda>r. (fst r, fst (snd r), m_db (snd (snd r)), m_docsToScan (snd (snd r))))
     (scanQueue (reliable_env (one_file ''/a/a.txt'' (text_file ''alpha''))) []
        (queued indexed_a [new_document ''/a/a.txt'' False]))
   = Inr (True, [], indexed_a, [])"
proof -
  let ?E = "reliable_env (one_file ''/a/a.txt'' (text_file ''alpha''))"
  let ?info = "new_document ''/a/a.txt'' False"
  let ?s = "queued indexed_a [?info]"
  let ?after = "?s\<lparr>m_docsToScan := []\<rparr>"
  let ?d = "\<lparr>d_id = 1, d_folder_id = 1, d_document_time = 1000, d_document_path = ''/a/a.txt''\<rparr>"
  have deq: "dequeueDocument ?s = Inr (?info, ?after)"
    by (simp add: dequeueDocument_def queued_def qmap_remove_def)
  have fl: "file_system ?E (doc ?info) = Some (text_file ''alpha'')"
    by (simp add: reliable_env_def one_file_def new_document_def)
  have rd: "fe_readable (text_file ''alpha'')" by (simp add: text_file_def)
  have idle: "\<not> currentlyProcessing ?info" by (simp add: new_document_def)
  have row: "find (\<lambda>d. d_document_path d = doc ?info) (documents (m_db ?s)) = Some ?d"
    by (simp add: queued_def indexed_a_def folder_a_def new_document_def)
  have nid: "d_id ?d \<noteq> - 1" by simp
  have same: "d_document_time ?d = fe_mtime (text_file ''alpha'')" by (simp add: text_file_def)
  from scanQueue_skips_unchanged_document[OF deq fl rd idle row nid same refl, of "[]"]
  show ?thesis
    by (simp add: reliable_env_def queued_def)
qed

text \<open>
  Claim C4. A PDF without pages is to be skipped with no chunk inserted and without an
  error. The code divides the size of the file by the number of pages before it reads a
  page: for a PDF that loads with no page the divisor is zero and the scan does not return.
  The input: the new file \<^verbatim>\<open>/a/a.pdf\<close>, a PDF of 300 bytes and no page, alone in the queue.
\<close>

theorem scanQueue_pdf_without_pages_divides_by_zero:
  "scanQueue (reliable_env (one_file ''/a/a.pdf'' (pdf_file []))) []
     (queued folder_a [new_document ''/a/a.pdf'' True]) = Inl DivisionByZero"
  by code_simp

text \<open>
  Claim C7. After the text of the current page was chunked, a PDF is to go back to the front
  of the queue exactly when the page was not the last. The code compares the index of the
  page just read, which counts from zero, with the number of pages: after the only page of
  a PDF of one page (index 0) the document is put back with \<^verbatim>\<open>currentPage\<close> 1.
\<close>

theorem scanQueue_requeues_pdf_after_last_page:
  "map_sum id (\<lambda>r. (fst r, m_docsToScan (snd (snd r))))
     (scanQueue (reliable_env (one_file ''/a/a.pdf'' (pdf_file [''one page''])))
        [] (queued folder_a [new_document ''/a/a.pdf'' True]))
   = Inr (True, [(1, [\<lparr>folder = 1, doc = ''/a/a.pdf'', currentPage = 1, currentPosition = 0,
                       currentlyProcessing = True, is_pdf = True\<rparr>])])"
  by code_simp

subsection \<open>Chunks\<close>

text \<open>
  Claim C3. A chunk is to be emitted when the characters and separating spaces of the
  buffered words reach the chunk size, or at the end of the stream if words are buffered.
  The code tests only \<^verbatim>\<open>stream.atEnd()\<close>: a stream that ends in white space after the last
  chunk, or holds nothing but white space, ends with a chunk of no words and empty text,
  which is inserted and handed on for embedding. The input: a stream holding one space.
\<close>

theorem chunkStream_emits_empty_chunk:
  "(\<lambda>s'. (map (\<lambda>c. (c_chunk_text c, c_words c)) (chunks (m_db s')), m_chunkList s'))
     (snd (chunkStream (reliable_env (\<lambda>p. None)) \<lparr>ts_pos = 0, ts_rest = '' ''\<rparr>
             1 1 ''a.txt'' [] [] [] [] (- 1) 100 (queued folder_a [])))
   = ([([], 0)], [\<lparr>ec_folder_id = 1, ec_chunk_id = 1, ec_chunk = []\<rparr>])"
  by code_simp

subsection \<open>The scan tick\<close>

text \<open>
  Claim C1. If the scan of a document fails, a failed insertion of a chunk included, the
  tick is to be rolled back and the database left as it was. \<^verbatim>\<open>chunkStream\<close> only warns
  when \<^verbatim>\<open>addChunk\<close> fails and \<^verbatim>\<open>scanQueue\<close> returns true: the tick commits. The input: the
  new file \<^verbatim>\<open>/a/a.txt\<close> holding \<^verbatim>\<open>alpha\<close>, alone in the queue; the insertion into \<^verbatim>\<open>chunks\<close>
  fails. After the tick the table \<^verbatim>\<open>documents\<close>, empty before, has the row of the file, no
  chunk is stored, and a chunk with id 0 waits to be embedded.
\<close>

theorem scanQueueBatch_commits_after_failed_chunk_insert:
  "map_sum id (\<lambda>s'. (trace s', map d_document_path (documents (m_db s')), chunks (m_db s'),
                      m_chunkList s'))
     (scanQueueBatch (failing_chunk_insert_env (one_file ''/a/a.txt'' (text_file ''alpha''))) 1
        (queued folder_a [new_document ''/a/a.txt'' False]))
   = Inr ([Transaction, Commit], [''/a/a.txt''], [],
          [\<lparr>ec_folder_id = 1, ec_chunk_id = 0, ec_chunk = ''alpha''\<rparr>])"
  by code_simp

subsection \<open>Embedding results\<close>








subsection \<open>Sparse retrieval\<close>

lemma two_words_three_fields:
  "length (split_spaces KeepEmptyParts ''data base '') = Suc (Suc (Suc 0))"
  by code_simp

lemma two_words_one_phrase:
  "join '' OR '' (generateGrams ''data base '' (int (Suc (Suc (Suc 0)))))
   = near_phrase [''data'', ''base'']"
  by code_simp

text \<open>
  Claim C6. The queries are to run for N from the number of words of the query down to 3,
  and a query of fewer than three words is to return no results. \<^verbatim>\<open>selectChunk\<close> counts
  the words with \<^verbatim>\<open>split\<close> keeping empty parts, \<^verbatim>\<open>generateGrams\<close> skips them: white space
  at an end of the query counts as a word in the first and not in the second. The input: the
  query \<^verbatim>\<open>data base\<close> followed by a space, of two words and three fields. The loop starts at
  N = 3, \<^verbatim>\<open>generateGrams\<close> lowers N to 2, and the statement \<^verbatim>\<open>SELECT_NGRAM_SQL\<close> is executed
  with the match text \<^verbatim>\<open>NEAR("data" "base", 2)\<close>: unless it fails, every row it selects is
  returned as a result, whatever the collections, the limit and the database are.
\<close>

theorem selectChunk_two_words_runs_query:
  "split_spaces KeepEmptyParts ''data base '' = [''data'', ''base'', []]
   \<and> stripped_words ''data base '' = [''data'', ''base'']
   \<and> selectChunk E names ''data base '' k db =
       (if sql_fails E (SELECT_NGRAM_SQL names k (near_phrase [''data'', ''base''])) db
        then (False, [], [])
        else (True, fts_match E names k (near_phrase [''data'', ''base'']) db,
              [near_phrase [''data'', ''base'']]))
   \<and> map r_text (retrieveFromDB E names ''data base '' k db) =
       (if sql_fails E (SELECT_NGRAM_SQL names k (near_phrase [''data'', ''base''])) db then []
        else map n_chunk_text (fts_match E names k (near_phrase [''data'', ''base'']) db))"
proof -
  have f: "split_spaces KeepEmptyParts ''data base '' = [''data'', ''base'', []]" by code_simp
  have w: "stripped_words ''data base '' = [''data'', ''base'']" by code_simp
  have sel: "selectChunk E names ''data base '' k db =
       (if sql_fails E (SELECT_NGRAM_SQL names k (near_phrase [''data'', ''base''])) db
        then (False, [], [])
        else (True, fts_match E names k (near_phrase [''data'', ''base'']) db,
              [near_phrase [''data'', ''base'']]))"
    unfolding selectChunk_def Let_def two_words_three_fields
    by (simp only: selectChunk_loop.simps two_words_one_phrase Let_def) simp
  have "map r_text (retrieveFromDB E names ''data base '' k db) =
       (if sql_fails E (SELECT_NGRAM_SQL names k (near_phrase [''data'', ''base''])) db then []
        else map n_chunk_text (fts_match E names k (near_phrase [''data'', ''base'']) db))"
    unfolding retrieveFromDB_def sel by (simp add: o_def)
  with f w sel show ?thesis by blast
qed

subsection \<open>Removing a folder\<close>

lemma without_documents_Nil: "without_documents [] db = db"
  by (simp add: without_documents_def)

lemma without_documents_Cons:
  "without_documents ids (without_documents [d] db) = without_documents (d # ids) db"
  by (auto simp: without_documents_def intro: filter_cong)

lemma chunks_of_documents_Cons:
  "set (chunks_of_documents [d] db) \<union> set (chunks_of_documents ids (without_documents [d] db))
   = set (chunks_of_documents (d # ids) db)"
  by (auto simp: chunks_of_documents_def without_documents_def)

lemma remove_one_document:
  assumes "reliable E"
  shows "getChunksByDocumentId E d ctr s = (True, ctr @ chunks_of_documents [d] (m_db s))"
    and "removeChunksByDocumentId E d db =
           (True, db\<lparr>chunks := filter (\<lambda>c. c_document_id c \<noteq> d) (chunks db),
                    chunks_fts := filter (\<lambda>c. fts_document_id c \<noteq> d) (chunks_fts db)\<rparr>)"
    and "removeDocument E d db = (True, db\<lparr>documents := filter (\<lambda>x. d_id x \<noteq> d) (documents db)\<rparr>)"
  using assms
  by (simp_all add: reliable_def getChunksByDocumentId_def removeChunksByDocumentId_def
        removeDocument_def chunks_of_documents_def Let_def)

lemma remove_documents_reliable:
  assumes "reliable E"
  shows "\<exists>cs. set cs = set (chunks_of_documents ids (m_db s))
           \<and> remove_documents E ids ctr s =
               (True, ctr @ cs, s\<lparr>m_db := without_documents ids (m_db s)\<rparr>)"
proof (induction ids arbitrary: ctr s)
  case Nil
  show ?case
    by (rule exI[of _ "[]"]) (simp add: chunks_of_documents_def without_documents_Nil)
next
  case (Cons d ids)
  let ?s1 = "s\<lparr>m_db := without_documents [d] (m_db s)\<rparr>"
  have step: "remove_documents E (d # ids) ctr s =
                remove_documents E ids (ctr @ chunks_of_documents [d] (m_db s)) ?s1"
    by (simp add: remove_one_document[OF assms] without_documents_def)
  from Cons.IH[of ?s1 "ctr @ chunks_of_documents [d] (m_db s)"] obtain cs where
    cs: "set cs = set (chunks_of_documents ids (m_db ?s1))"
    and eq: "remove_documents E ids (ctr @ chunks_of_documents [d] (m_db s)) ?s1 =
               (True, (ctr @ chunks_of_documents [d] (m_db s)) @ cs,
                ?s1\<lparr>m_db := without_documents ids (m_db ?s1)\<rparr>)"
    by blast
  show ?case
  proof (intro exI[of _ "chunks_of_documents [d] (m_db s) @ cs"] conjI)
    show "set (chunks_of_documents [d] (m_db s) @ cs) = set (chunks_of_documents (d # ids) (m_db s))"
      using cs chunks_of_documents_Cons[of d "m_db s" ids] by simp
    show "remove_documents E (d # ids) ctr s =
            (True, ctr @ chunks_of_documents [d] (m_db s) @ cs,
             s\<lparr>m_db := without_documents (d # ids) (m_db s)\<rparr>)"
      unfolding step eq by (simp add: without_documents_Cons)
  qed
qed

lemma fold_embeddings_remove:
  "fold embeddings_remove cs s = s\<lparr>trace := trace s @ map EmbeddingsRemove cs\<rparr>"
  by (induction cs arbitrary: s) (simp_all add: embeddings_remove_def)

lemma apply_removals_effect:
  "apply_removals cs s =
     s\<lparr>m_db_transaction := None,
       trace := trace s @ map EmbeddingsRemove cs @ Commit # (if cs = [] then [] else [EmbeddingsSave])\<rparr>"
  by (simp add: apply_removals_def fold_embeddings_remove commit_def embeddings_save_def Let_def)

lemma qmap_remove_absent: "map_of m k = None \<Longrightarrow> qmap_remove k m = m"
  by (induction m) (auto simp: qmap_remove_def split: if_splits)

lemma removeFolderFromDocumentQueue_effect:
  "removeFolderFromDocumentQueue folder_id s =
     s\<lparr>m_docsToScan := qmap_remove folder_id (m_docsToScan s)\<rparr>"
  by (simp add: removeFolderFromDocumentQueue_def qmap_remove_absent split: option.splits)

lemma removeFolderInternal_shared:
  assumes "reliable E" and "associations (m_db s) folder_id > 1"
  shows "removeFolderInternal E collection folder_id path s =
           s\<lparr>m_db := without_association collection folder_id (m_db s),
             m_db_transaction := None,
             trace := trace s @ [Transaction, Commit]\<rparr>"
  using assms
  by (simp add: removeFolderInternal_def selectCollectionsFromFolder_def removeCollection_def
        reliable_def associations_def transaction_def commit_def without_association_def Let_def)

lemma removeFolderInternal_sole:
  assumes rel: "reliable E" and sole: "associations (m_db s) folder_id \<le> 1"
  shows "\<exists>cs. set cs = set (chunks_of_documents (folder_documents (m_db s) folder_id) (m_db s))
           \<and> removeFolderInternal E collection folder_id path s =
               s\<lparr>m_db := (without_documents (folder_documents (m_db s) folder_id)
                            (without_association collection folder_id (m_db s)))
                          \<lparr>folders := filter (\<lambda>f. f_id f \<noteq> folder_id) (folders (m_db s))\<rparr>,
                 m_db_transaction := None,
                 m_docsToScan := qmap_remove folder_id (m_docsToScan s),
                 m_watcher := removeAll path (m_watcher s),
                 trace := trace s @ committed_batch cs\<rparr>"
proof -
  let ?names = "map col_collection_name
                  (filter (\<lambda>c. col_folder_id c = folder_id) (collections (m_db s)))"
  let ?db1 = "without_association collection folder_id (m_db s)"
  let ?s2 = "removeFolderFromDocumentQueue folder_id ((transaction s)\<lparr>m_db := ?db1\<rparr>)"
  let ?docs = "folder_documents (m_db s) folder_id"
  let ?s3 = "?s2\<lparr>m_db := without_documents ?docs ?db1\<rparr>"
  let ?db4 = "(without_documents ?docs ?db1)
                \<lparr>folders := filter (\<lambda>f. f_id f \<noteq> folder_id) (folders (m_db s))\<rparr>"
  have sel: "selectCollectionsFromFolder E folder_id [] (m_db s) = (True, ?names)"
    using rel by (simp add: selectCollectionsFromFolder_def reliable_def)
  have many: "(1 < length ?names) = False"
    using sole by (simp add: associations_def)
  have rc: "removeCollection E collection folder_id (m_db (transaction s)) = (True, ?db1)"
    using rel by (simp add: removeCollection_def reliable_def transaction_def
                    without_association_def)
  have db2: "m_db ?s2 = ?db1"
    by (simp add: removeFolderFromDocumentQueue_effect)
  have sd: "selectDocuments E folder_id [] (m_db ?s2) = (True, ?docs)"
    using rel unfolding db2
    by (simp add: selectDocuments_def reliable_def folder_documents_def without_association_def)
  from remove_documents_reliable[OF rel, of ?docs ?s2 "[]"] obtain cs where
    cs: "set cs = set (chunks_of_documents ?docs ?db1)"
    and rd: "remove_documents E ?docs [] ?s2 = (True, cs, ?s3)"
    unfolding db2 by auto
  have cs': "set cs = set (chunks_of_documents ?docs (m_db s))"
    using cs by (simp add: chunks_of_documents_def without_association_def)
  have rf: "removeFolderFromDB E folder_id (m_db ?s3) = (True, ?db4)"
    using rel
    by (simp add: removeFolderFromDB_def reliable_def without_documents_def
          without_association_def)
  have "removeFolderInternal E collection folder_id path s =
          removeFolderFromWatch path (apply_removals cs (?s3\<lparr>m_db := ?db4\<rparr>))"
    by (simp only: removeFolderInternal_def sel rc sd rd rf many Let_def prod.case
          simp_thms if_False if_True)
  also have "\<dots> = s\<lparr>m_db := ?db4,
                 m_db_transaction := None,
                 m_docsToScan := qmap_remove folder_id (m_docsToScan s),
                 m_watcher := removeAll path (m_watcher s),
                 trace := trace s @ committed_batch cs\<rparr>"
    by (simp add: removeFolderFromWatch_def apply_removals_effect
          removeFolderFromDocumentQueue_effect transaction_def committed_batch_def)
  finally show ?thesis using cs' by blast
qed

lemma selectFolder_found:
  assumes "reliable E" "find (\<lambda>f. f_folder_path f = path) (folders (m_db s)) = Some f"
    "f_id f \<noteq> - 1"
  shows "removeFolder E collection path s = removeFolderInternal E collection (f_id f) path s"
  using assms by (simp add: removeFolder_def selectFolder_def reliable_def)

lemma reliable_reliable_env: "reliable (reliable_env fs)"
  by (simp add: reliable_def reliable_env_def)

text \<open>
  Claim C10, as stated: when the folder of the path has a row and exactly one association,
  its chunks, its documents and its row are deleted, whatever collection is named. The
  folder \<^verbatim>\<open>/a\<close> has one association, with the collection \<^verbatim>\<open>C\<close>, and is removed from the
  collection \<^verbatim>\<open>D\<close>; the deletion from \<^verbatim>\<open>folders\<close> fails. The transaction is rolled back and
  every row is where it was.
\<close>

theorem removeFolder_rolls_back_when_folder_delete_fails:
  "map f_folder_path (folders indexed_a) = [''/a'']
   \<and> associations indexed_a 1 = 1
   \<and> m_db (removeFolder failing_folder_delete_env ''D'' ''/a'' (queued indexed_a [])) = indexed_a
   \<and> trace (removeFolder failing_folder_delete_env ''D'' ''/a'' (queued indexed_a []))
       = [Transaction, Rollback]"
  by code_simp

text \<open>
  Claim C10, amended: when the folder of the path has a row and exactly one association in
  \<^verbatim>\<open>collections\<close>, and no statement fails, \<^verbatim>\<open>removeFolder\<close> deletes the row of the folder,
  the rows of its documents and the rows of their chunks in \<^verbatim>\<open>chunks\<close> and \<^verbatim>\<open>chunks_fts\<close>,
  whatever collection is named, and commits: the calls added are those of a batch that
  commits, which removes the chunks of the folder from the vector index, and no transaction
  is left open. From \<^verbatim>\<open>collections\<close> only an association of the named collection is
  deleted, so the association of another collection stays behind.
\<close>

theorem removeFolder_single_association_removes_folder:
  assumes rel: "reliable E"
    and found: "find (\<lambda>f. f_folder_path f = path) (folders (m_db s)) = Some f" "f_id f \<noteq> - 1"
    and one: "associations (m_db s) (f_id f) = 1"
    and s': "s' = removeFolder E collection path s"
    and docs: "docs = folder_documents (m_db s) (f_id f)"
  shows "folders (m_db s') = filter (\<lambda>x. f_id x \<noteq> f_id f) (folders (m_db s))
       \<and> documents (m_db s') = filter (\<lambda>d. d_id d \<notin> set docs) (documents (m_db s))
       \<and> filter (\<lambda>d. d_folder_id d = f_id f) (documents (m_db s')) = []
       \<and> chunks (m_db s') = filter (\<lambda>c. c_document_id c \<notin> set docs) (chunks (m_db s))
       \<and> chunks_fts (m_db s') = filter (\<lambda>c. fts_document_id c \<notin> set docs) (chunks_fts (m_db s))
       \<and> collections (m_db s') =
           filter (\<lambda>c. \<not> (col_collection_name c = collection \<and> col_folder_id c = f_id f))
             (collections (m_db s))
       \<and> m_db_transaction s' = None
       \<and> (\<exists>cs. set cs = set (chunks_of_documents docs (m_db s))
             \<and> trace s' = trace s @ committed_batch cs)"
proof -
  from one have "associations (m_db s) (f_id f) \<le> 1" by simp
  from removeFolderInternal_sole[OF rel this, of collection path] obtain cs where
    cs: "set cs = set (chunks_of_documents (folder_documents (m_db s) (f_id f)) (m_db s))"
    and r: "removeFolderInternal E collection (f_id f) path s =
               s\<lparr>m_db := (without_documents (folder_documents (m_db s) (f_id f))
                            (without_association collection (f_id f) (m_db s)))
                          \<lparr>folders := filter (\<lambda>x. f_id x \<noteq> f_id f) (folders (m_db s))\<rparr>,
                 m_db_transaction := None,
                 m_docsToScan := qmap_remove (f_id f) (m_docsToScan s),
                 m_watcher := removeAll path (m_watcher s),
                 trace := trace s @ committed_batch cs\<rparr>"
    by blast
  from r have db: "m_db s' = (without_documents docs (without_association collection (f_id f) (m_db s)))
                          \<lparr>folders := filter (\<lambda>x. f_id x \<noteq> f_id f) (folders (m_db s))\<rparr>"
    by (simp add: s' docs selectFolder_found[OF rel found])
  from r have tx: "m_db_transaction s' = None"
    by (simp add: s' selectFolder_found[OF rel found])
  from r have tr: "trace s' = trace s @ committed_batch cs"
    by (simp add: s' selectFolder_found[OF rel found])
  have gone: "filter (\<lambda>d. d_folder_id d = f_id f)
                (filter (\<lambda>d. d_id d \<notin> set docs) (documents (m_db s))) = []"
    by (auto simp: docs folder_documents_def filter_empty_conv)
  have tables: "folders (m_db s') = filter (\<lambda>x. f_id x \<noteq> f_id f) (folders (m_db s))
       \<and> documents (m_db s') = filter (\<lambda>d. d_id d \<notin> set docs) (documents (m_db s))
       \<and> filter (\<lambda>d. d_folder_id d = f_id f) (documents (m_db s')) = []
       \<and> chunks (m_db s') = filter (\<lambda>c. c_document_id c \<notin> set docs) (chunks (m_db s))
       \<and> chunks_fts (m_db s') = filter (\<lambda>c. fts_document_id c \<notin> set docs) (chunks_fts (m_db s))
       \<and> collections (m_db s') =
           filter (\<lambda>c. \<not> (col_collection_name c = collection \<and> col_folder_id c = f_id f))
             (collections (m_db s))"
    unfolding db using gone
    by (simp add: without_documents_def without_association_def)
  from cs tr have "\<exists>cs. set cs = set (chunks_of_documents docs (m_db s))
             \<and> trace s' = trace s @ committed_batch cs"
    unfolding docs by blast
  with tables tx show ?thesis by blast
qed

theorem removeFolder_single_association_removes_folder_witness:
  "associations (m_db (queued indexed_a [])) 1 = 1
   \<and> map col_collection_name (collections (m_db (queued indexed_a []))) = [''C'']
   \<and> folders (m_db (removeFolder (reliable_env (\<lambda>p. None)) ''D'' ''/a'' (queued indexed_a []))) = []
   \<and> documents (m_db (removeFolder (reliable_env (\<lambda>p. None)) ''D'' ''/a'' (queued indexed_a []))) = []
   \<and> chunks (m_db (removeFolder (reliable_env (\<lambda>p. None)) ''D'' ''/a'' (queued indexed_a []))) = []
   \<and> chunks_fts (m_db (removeFolder (reliable_env (\<lambda>p. None)) ''D'' ''/a'' (queued indexed_a []))) = []
   \<and> map col_collection_name
       (collections (m_db (removeFolder (reliable_env (\<lambda>p. None)) ''D'' ''/a'' (queued indexed_a []))))
       = [''C'']
   \<and> m_db_transaction (removeFolder (reliable_env (\<lambda>p. None)) ''D'' ''/a'' (queued indexed_a [])) = None
   \<and> trace (removeFolder (reliable_env (\<lambda>p. None)) ''D'' ''/a'' (queued indexed_a []))
       = [Transaction, EmbeddingsRemove 1, Commit, EmbeddingsSave]"
proof -
  let ?s = "queued indexed_a []"
  let ?f = "\<lparr>f_id = 1, f_folder_path = ''/a''\<rparr>"
  let ?r = "removeFolder (reliable_env (\<lambda>p. None)) ''D'' ''/a'' ?s"
  have found: "find (\<lambda>f. f_folder_path f = ''/a'') (folders (m_db ?s)) = Some ?f"
    by (simp add: queued_def indexed_a_def folder_a_def)
  have nid: "f_id ?f \<noteq> - 1" by simp
  have one: "associations (m_db ?s) (f_id ?f) = 1" by code_simp
  have names: "map col_collection_name (collections (m_db ?s)) = [''C'']" by code_simp
  have e1: "filter (\<lambda>x. f_id x \<noteq> f_id ?f) (folders (m_db ?s)) = []" by code_simp
  have e2: "filter (\<lambda>d. d_id d \<notin> set (folder_documents (m_db ?s) (f_id ?f))) (documents (m_db ?s)) = []"
    by code_simp
  have e3: "filter (\<lambda>c. c_document_id c \<notin> set (folder_documents (m_db ?s) (f_id ?f))) (chunks (m_db ?s)) = []"
    by code_simp
  have e4: "filter (\<lambda>c. fts_document_id c \<notin> set (folder_documents (m_db ?s) (f_id ?f))) (chunks_fts (m_db ?s)) = []"
    by code_simp
  have e5: "map col_collection_name
              (filter (\<lambda>c. \<not> (col_collection_name c = ''D'' \<and> col_folder_id c = f_id ?f))
                 (collections (m_db ?s))) = [''C'']"
    by code_simp
  have e6: "chunks_of_documents (folder_documents (m_db ?s) (f_id ?f)) (m_db ?s) = [1]"
    by code_simp
  have e7: "trace ?s = []" by (simp add: queued_def)
  from removeFolder_single_association_removes_folder
         [OF reliable_reliable_env found nid one refl refl, of "\<lambda>p. None" "''D''"]
  have tables: "folders (m_db ?r) = [] \<and> documents (m_db ?r) = [] \<and> chunks (m_db ?r) = []
      \<and> chunks_fts (m_db ?r) = []
      \<and> map col_collection_name (collections (m_db ?r)) = [''C'']
      \<and> m_db_transaction ?r = None"
    and "\<exists>cs. set cs = set [1::int] \<and> trace ?r = [] @ committed_batch cs"
    unfolding e1 e2 e3 e4 e6 e7 using e5 by simp_all
  have "trace ?r = [Transaction, EmbeddingsRemove 1, Commit, EmbeddingsSave]"
    by code_simp
  with tables one names show ?thesis by simp
qed

text \<open>
  Claim C5, as stated: if another collection still references the folder, only the association
  is removed and the documents and chunks of the folder stay. The folder \<^verbatim>\<open>/a\<close> is in the
  collection \<^verbatim>\<open>C\<close> only; removing it from the collection \<^verbatim>\<open>D\<close> deletes its document and its
  chunk, and \<^verbatim>\<open>C\<close> still references it.
\<close>

theorem removeFolder_of_other_collection_removes_folder:
  "map col_collection_name (collections indexed_a) = [''C'']
   \<and> map c_chunk_id (chunks indexed_a) = [1]
   \<and> map d_id (documents indexed_a) = [1]
   \<and> map col_collection_name
        (collections (m_db (removeFolder (reliable_env (\<lambda>p. None)) ''D'' ''/a''
                              (queued indexed_a [])))) = [''C'']
   \<and> chunks (m_db (removeFolder (reliable_env (\<lambda>p. None)) ''D'' ''/a'' (queued indexed_a []))) = []
   \<and> documents (m_db (removeFolder (reliable_env (\<lambda>p. None)) ''D'' ''/a'' (queued indexed_a []))) = []"
  by code_simp

text \<open>
  Claim C5, amended: the code counts the associations of the folder before it deletes the
  one of the named collection. If no statement fails and the folder of the path has a row:
  with more than one association only the association of the named collection is deleted,
  in a transaction of its own, and nothing else changes; with at most one, the queue of the
  folder is dropped, its documents, their chunks in both tables and the row of the folder
  are deleted in one transaction, the chunks are removed from the vector index before the
  commit, the index is saved after it if there was a chunk, and the path is no longer
  watched.
\<close>

theorem removeFolder_by_association_count:
  assumes rel: "reliable E"
    and found: "find (\<lambda>f. f_folder_path f = path) (folders (m_db s)) = Some f" "f_id f \<noteq> - 1"
    and docs: "docs = folder_documents (m_db s) (f_id f)"
  shows "(associations (m_db s) (f_id f) > 1 \<longrightarrow>
            removeFolder E collection path s =
              s\<lparr>m_db := without_association collection (f_id f) (m_db s),
                m_db_transaction := None,
                trace := trace s @ [Transaction, Commit]\<rparr>)
       \<and> (associations (m_db s) (f_id f) \<le> 1 \<longrightarrow>
            (\<exists>cs. set cs = set (chunks_of_documents docs (m_db s))
               \<and> removeFolder E collection path s =
                   s\<lparr>m_db := (without_documents docs
                                (without_association collection (f_id f) (m_db s)))
                              \<lparr>folders := filter (\<lambda>x. f_id x \<noteq> f_id f) (folders (m_db s))\<rparr>,
                     m_db_transaction := None,
                     m_docsToScan := qmap_remove (f_id f) (m_docsToScan s),
                     m_watcher := removeAll path (m_watcher s),
                     trace := trace s @ committed_batch cs\<rparr>))"
  using removeFolderInternal_shared[OF rel, of s "f_id f" collection path]
        removeFolderInternal_sole[OF rel, of s "f_id f" collection path]
  by (simp add: selectFolder_found[OF rel found] docs)

theorem removeFolder_by_association_count_witness:
  "associations (m_db (queued shared_a [])) 1 > 1
   \<and> removeFolder (reliable_env (\<lambda>p. None)) ''C'' ''/a'' (queued shared_a []) =
       (queued shared_a [])
         \<lparr>m_db := without_association ''C'' 1 (m_db (queued shared_a [])),
          m_db_transaction := None,
          trace := trace (queued shared_a []) @ [Transaction, Commit]\<rparr>
   \<and> associations (m_db (queued indexed_a [])) 1 \<le> 1
   \<and> (\<exists>cs. set cs = set (chunks_of_documents (folder_documents (m_db (queued indexed_a [])) 1)
                          (m_db (queued indexed_a [])))
        \<and> removeFolder (reliable_env (\<lambda>p. None)) ''C'' ''/a'' (queued indexed_a []) =
            (queued indexed_a [])
              \<lparr>m_db := (without_documents (folder_documents (m_db (queued indexed_a [])) 1)
                          (without_association ''C'' 1 (m_db (queued indexed_a []))))
                        \<lparr>folders := filter (\<lambda>x. f_id x \<noteq> 1) (folders (m_db (queued indexed_a [])))\<rparr>,
               m_db_transaction := None,
               m_docsToScan := qmap_remove 1 (m_docsToScan (queued indexed_a [])),
               m_watcher := removeAll ''/a'' (m_watcher (queued indexed_a [])),
               trace := trace (queued indexed_a []) @ committed_batch cs\<rparr>)"
proof -
  let ?f = "\<lparr>f_id = 1, f_folder_path = ''/a''\<rparr>"
  have found2: "find (\<lambda>f. f_folder_path f = ''/a'') (folders (m_db (queued shared_a []))) = Some ?f"
    by (simp add: queued_def shared_a_def indexed_a_def folder_a_def)
  have found1: "find (\<lambda>f. f_folder_path f = ''/a'') (folders (m_db (queued indexed_a []))) = Some ?f"
    by (simp add: queued_def indexed_a_def folder_a_def)
  have nid: "f_id ?f \<noteq> - 1" by simp
  have many: "associations (m_db (queued shared_a [])) 1 > 1" by code_simp
  have few: "associations (m_db (queued indexed_a [])) 1 \<le> 1" by code_simp
  from removeFolder_by_association_count[OF reliable_reliable_env found2 nid refl,
         of "\<lambda>p. None" "''C''"] many
  have a: "removeFolder (reliable_env (\<lambda>p. None)) ''C'' ''/a'' (queued shared_a []) =
       (queued shared_a [])
         \<lparr>m_db := without_association ''C'' 1 (m_db (queued shared_a [])),
          m_db_transaction := None,
          trace := trace (queued shared_a []) @ [Transaction, Commit]\<rparr>"
    by simp
  from removeFolder_by_association_count[OF reliable_reliable_env found1 nid refl,
         of "\<lambda>p. None" "''C''"] few
  have b: "\<exists>cs. set cs = set (chunks_of_documents (folder_documents (m_db (queued indexed_a [])) 1)
                          (m_db (queued indexed_a [])))
        \<and> removeFolder (reliable_env (\<lambda>p. None)) ''C'' ''/a'' (queued indexed_a []) =
            (queued indexed_a [])
              \<lparr>m_db := (without_documents (folder_documents (m_db (queued indexed_a [])) 1)
                          (without_association ''C'' 1 (m_db (queued indexed_a []))))
                        \<lparr>folders := filter (\<lambda>x. f_id x \<noteq> 1) (folders (m_db (queued indexed_a [])))\<rparr>,
               m_db_transaction := None,
               m_docsToScan := qmap_remove 1 (m_docsToScan (queued indexed_a [])),
               m_watcher := removeAll ''/a'' (m_watcher (queued indexed_a [])),
               trace := trace (queued indexed_a []) @ committed_batch cs\<rparr>"
    by simp
  from many a few b show ?thesis by blast
qed

subsection \<open>Transactions and the vector index\<close>















































end
